theory Spec2Isabelle
  imports Complex_Main "HOL-Library.Word" "HOL-Library.Sublist"
begin

unbundle bit_operations_syntax

section \<open>Data model of the generic document format\<close>

text \<open>
  The embedding follows \<^verbatim>\<open>source/main/utils/GenericFileFormat.cpp\<close>. Bytes are
  \<^typ>\<open>char\<close>, buffers (\<^verbatim>\<open>std::vector<char>\<close>) are \<^typ>\<open>char list\<close>, and the
  counters of type \<^verbatim>\<open>size_t\<close> are \<^typ>\<open>nat\<close> (their wrap-around at \<open>2 ^ 64\<close> is out of
  reach of any input that fits in memory).
\<close>

abbreviation NUL :: char where "NUL \<equiv> CHR 0x00"
abbreviation TAB :: char where "TAB \<equiv> CHR 0x09"
abbreviation LF :: char where "LF \<equiv> CHR 0x0A"
abbreviation CR :: char where "CR \<equiv> CHR 0x0D"
abbreviation SPACE :: char where "SPACE \<equiv> CHR 0x20"
abbreviation DQUOTE :: char where "DQUOTE \<equiv> CHR 0x22"

text \<open>
  Modelled from the spec: the token kinds are declared in \<^verbatim>\<open>GenericFileFormat.h\<close>, which is
  not among the sources; the spec lists them as LINEBREAK, COMMENT, STRING, NUMBER, BOOL and
  KEYWORD.
\<close>

datatype TokenType = LINEBREAK | COMMENT | STRING | NUMBER | BOOL | KEYWORD

text \<open>
  A token is a kind and one \<^verbatim>\<open>float\<close> payload, modelled by the real number the float
  holds. Two casts fill it. The cast \<^verbatim>\<open>(float)doc.string_pool.size()\<close> is \<open>float_of_size\<close>
  below. The cast of the parsed number is the identity on every value the tokenizer can
  reach: when a number is flushed the buffer holds at most one digit (see \<^verbatim>\<open>UpdateNumber\<close>),
  so the parsed value is an integer from 0 to 9.
\<close>

record Token =
  type :: TokenType
  data :: real

record GenericDocument =
  tokens :: "Token list"
  string_pool :: "char list"

text \<open>The partial token kinds of \<^verbatim>\<open>enum class PartialToken\<close>; the prefix keeps them apart
  from the token kinds, as the scoped enum does in the source.\<close>

datatype PartialToken =
    P_NONE
  | P_COMMENT_SEMICOLON
  | P_COMMENT_SLASH
  | P_STRING_QUOTED
  | P_STRING_NAKED
  | P_TITLE_STRING
  | P_NUMBER
  | P_NUMBER_DOT
  | P_KEYWORD
  | P_BOOL_TRUE
  | P_BOOL_FALSE
  | P_GARBAGE

text \<open>
  The warnings sent to the console, one constructor per message text of the source; each
  carries the line number and the line position the message prints, and the character or the
  token text it quotes. The stream's name, the same in every message, is left out.
\<close>

datatype Warning =
    StrayCharacter nat nat char
  | StrayCharacterInString nat nat char
  | QuotedStringInterrupted nat nat
  | StrayCharacterInNumber nat nat char
  | DiscardingIncompleteBoolean nat nat string
  | StrayCharacterInBoolean nat nat char
  | StrayCharacterInKeyword nat nat char
  | DiscardingGarbage nat nat string

text \<open>
  \<^verbatim>\<open>struct DocumentParser\<close>. The reference \<^verbatim>\<open>doc\<close> is the document being filled, held
  here by value and handed back at the end of the load; \<^verbatim>\<open>console\<close> collects what
  \<^verbatim>\<open>App::GetConsole()->putMessage\<close> receives, in order.
\<close>

record DocumentParser =
  doc :: GenericDocument
  options :: "32 word"
  tok :: "char list"
  line_num :: nat
  line_pos :: nat
  partial_tok_type :: PartialToken
  title_found :: bool
  console :: "Warning list"

text \<open>
  Modelled from the spec: the option bits are constants of \<^verbatim>\<open>GenericFileFormat.h\<close>, which is
  not among the sources. The spec asks for a bitset of three independent options; they are
  given three distinct bits.
\<close>

definition OPTION_ALLOW_NAKED_STRINGS :: "32 word" where
  "OPTION_ALLOW_NAKED_STRINGS = 1"

definition OPTION_ALLOW_SLASH_COMMENTS :: "32 word" where
  "OPTION_ALLOW_SLASH_COMMENTS = 2"

definition OPTION_FIRST_LINE_IS_TITLE :: "32 word" where
  "OPTION_FIRST_LINE_IS_TITLE = 4"

subsection \<open>Character classes and C strings\<close>

text \<open>
  \<^verbatim>\<open>isdigit\<close>, \<^verbatim>\<open>isalpha\<close> and \<^verbatim>\<open>isalnum\<close> of the C locale: the ASCII digits and
  letters. (For a byte above 127 held in a signed \<^verbatim>\<open>char\<close> the C functions are undefined;
  here such a byte is in no class.)
\<close>

definition isdigit :: "char \<Rightarrow> bool" where
  "isdigit c = (48 \<le> (of_char c :: nat) \<and> (of_char c :: nat) \<le> 57)"

definition isalpha :: "char \<Rightarrow> bool" where
  "isalpha c = ((65 \<le> (of_char c :: nat) \<and> (of_char c :: nat) \<le> 90) \<or>
                (97 \<le> (of_char c :: nat) \<and> (of_char c :: nat) \<le> 122))"

definition isalnum :: "char \<Rightarrow> bool" where
  "isalnum c = (isalpha c \<or> isdigit c)"

text \<open>The C string that starts at a buffer: the bytes before the first NUL.\<close>

definition c_str :: "char list \<Rightarrow> string" where
  "c_str buf = takeWhile (\<lambda>c. c \<noteq> NUL) buf"

text \<open>
  Modelled from the spec: \<^verbatim>\<open>Ogre::StringConverter::parseReal\<close> belongs to the engine
  library and is not among the sources. The spec calls it locale-independent decimal
  parsing of the buffered text: an optional minus sign, digits, and an optional dot followed
  by digits; text with no digit at all gives 0.
\<close>

definition digits_value :: "string \<Rightarrow> nat" where
  "digits_value ds = foldl (\<lambda>acc d. 10 * acc + ((of_char d :: nat) - 48)) 0 ds"

definition parseReal :: "char list \<Rightarrow> real" where
  "parseReal buf =
    (let s = c_str buf;
         neg = (s \<noteq> [] \<and> hd s = CHR ''-'');
         body = (if neg then tl s else s);
         ip = takeWhile isdigit body;
         rest = dropWhile isdigit body;
         fp = (if rest \<noteq> [] \<and> hd rest = CHR ''.'' then takeWhile isdigit (tl rest) else []);
         magnitude = real (digits_value (ip @ fp)) / 10 ^ length fp
     in if ip = [] \<and> fp = [] then 0
        else if neg then - magnitude else magnitude)"

section \<open>The tokenizer\<close>

subsection \<open>Blocks the handlers repeat\<close>

text \<open>\<^verbatim>\<open>doc.tokens.push_back({ ty, v })\<close>\<close>

definition push_token :: "TokenType \<Rightarrow> real \<Rightarrow> DocumentParser \<Rightarrow> DocumentParser" where
  "push_token ty v p =
     p\<lparr>doc := (doc p)\<lparr>tokens := tokens (doc p) @ [\<lparr>type = ty, data = v\<rparr>]\<rparr>\<rparr>"

text \<open>
  \<^verbatim>\<open>(float)n\<close> for a size \<open>n\<close>: a float has a significand of 24 bits, so a size below
  \<open>2 ^ 24\<close> is kept as it is and a larger one is rounded to the nearest multiple of the
  power of two that leaves 24 bits, a tie going to the even significand. \<open>float_shift n\<close> is
  the number of low bits that do not fit.
\<close>

function float_shift :: "nat \<Rightarrow> nat" where
  "float_shift n = (if n < 2 ^ 24 then 0 else Suc (float_shift (n div 2)))"
  by pat_completeness auto
termination
  by (relation "measure (\<lambda>n. n)") auto

declare float_shift.simps [simp del]

definition float_of_size :: "nat \<Rightarrow> real" where
  "float_of_size n =
     (let e = float_shift n;
          q = n div 2 ^ e;
          r = n mod 2 ^ e
      in real ((if 2 * r < 2 ^ e then q
                else if 2 ^ e < 2 * r then q + 1
                else if even q then q else q + 1) * 2 ^ e))"

text \<open>
  The block under each comment \<^verbatim>\<open>// Flush comment/string/keyword/title string\<close>: push a token
  whose payload is the pool's size, terminate \<^verbatim>\<open>tok\<close> with NUL, copy it to the end of the
  pool, clear it, and go back to \<^verbatim>\<open>PartialToken::NONE\<close>.
\<close>

definition flush_text :: "TokenType \<Rightarrow> DocumentParser \<Rightarrow> DocumentParser" where
  "flush_text ty p =
     (let p1 = push_token ty (float_of_size (length (string_pool (doc p)))) p;
          p2 = p1\<lparr>tok := tok p1 @ [NUL]\<rparr>;
          p3 = p2\<lparr>doc := (doc p2)\<lparr>string_pool := string_pool (doc p2) @ tok p2\<rparr>\<rparr>
      in p3\<lparr>tok := [], partial_tok_type := P_NONE\<rparr>)"

text \<open>The block under \<^verbatim>\<open>// Flush number\<close>.\<close>

definition flush_number :: "DocumentParser \<Rightarrow> DocumentParser" where
  "flush_number p =
     (let p1 = p\<lparr>tok := tok p @ [NUL]\<rparr>;
          p2 = push_token NUMBER (parseReal (tok p1)) p1
      in p2\<lparr>tok := [], partial_tok_type := P_NONE\<rparr>)"

text \<open>The block under \<^verbatim>\<open>// Break line\<close>.\<close>

definition break_line :: "DocumentParser \<Rightarrow> DocumentParser" where
  "break_line p = (push_token LINEBREAK 0 p)\<lparr>line_num := line_num p + 1, line_pos := 0\<rparr>"

definition put_message :: "Warning \<Rightarrow> DocumentParser \<Rightarrow> DocumentParser" where
  "put_message w p = p\<lparr>console := console p @ [w]\<rparr>"

definition tok_push_back :: "char \<Rightarrow> DocumentParser \<Rightarrow> DocumentParser" where
  "tok_push_back c p = p\<lparr>tok := tok p @ [c]\<rparr>"

definition inc_line_pos :: "DocumentParser \<Rightarrow> DocumentParser" where
  "inc_line_pos p = p\<lparr>line_pos := line_pos p + 1\<rparr>"

text \<open>The characters of the label group \<^verbatim>\<open>case ' ': case ',': case '\t':\<close> of every
  handler, named for the statements below.\<close>

definition is_separator :: "char \<Rightarrow> bool" where
  "is_separator c = (c = SPACE \<or> c = CHR '','' \<or> c = TAB)"

text \<open>\<^verbatim>\<open>doc.tokens.size() == 0 || doc.tokens.back().type == TokenType::LINEBREAK\<close>\<close>

definition on_line_start :: "DocumentParser \<Rightarrow> bool" where
  "on_line_start p =
     (tokens (doc p) = [] \<or> type (last (tokens (doc p))) = LINEBREAK)"

definition has_option :: "DocumentParser \<Rightarrow> 32 word \<Rightarrow> bool" where
  "has_option p flag = (options p AND flag \<noteq> 0)"

text \<open>
  The choice repeated in \<^verbatim>\<open>UpdateBool\<close>: with naked strings allowed the partial token
  becomes a naked string, otherwise garbage.
\<close>

definition downgrade_bool :: "DocumentParser \<Rightarrow> DocumentParser" where
  "downgrade_bool p =
     (if has_option p OPTION_ALLOW_NAKED_STRINGS
      then p\<lparr>partial_tok_type := P_STRING_NAKED\<rparr>
      else p\<lparr>partial_tok_type := P_GARBAGE\<rparr>)"

text \<open>
  The statement that ends \<^verbatim>\<open>BeginToken\<close>, \<^verbatim>\<open>UpdateString\<close>, \<^verbatim>\<open>UpdateNumber\<close>,
  \<^verbatim>\<open>UpdateBool\<close> and \<^verbatim>\<open>UpdateKeyword\<close>: when the partial token is garbage after the
  \<^verbatim>\<open>switch\<close>, a warning with the current line and position goes to the console.
\<close>

definition warn_if_garbage :: "(nat \<Rightarrow> nat \<Rightarrow> Warning) \<Rightarrow> DocumentParser \<Rightarrow> DocumentParser" where
  "warn_if_garbage w p =
     (if partial_tok_type p = P_GARBAGE
      then put_message (w (line_num p) (line_pos p)) p
      else p)"

subsection \<open>The handlers, one per partial token kind\<close>

text \<open>\<^verbatim>\<open>BeginToken\<close> is three statements in a row: the \<^verbatim>\<open>switch\<close> on the character, the
  override for the title line, and the warning for a stray character.\<close>

definition begin_switch :: "char \<Rightarrow> DocumentParser \<Rightarrow> DocumentParser" where
  "begin_switch c p =
     (if c = CR then p
      else if c = SPACE \<or> c = CHR '','' \<or> c = TAB then inc_line_pos p
      else if c = LF then break_line p
      else if c = CHR '';'' then
        inc_line_pos (p\<lparr>partial_tok_type := P_COMMENT_SEMICOLON\<rparr>)
      else if c = CHR ''/'' then
        inc_line_pos
          (if has_option p OPTION_ALLOW_SLASH_COMMENTS
           then p\<lparr>partial_tok_type := P_COMMENT_SLASH\<rparr>
           else if has_option p OPTION_ALLOW_NAKED_STRINGS \<and>
                   (tokens (doc p) \<noteq> [] \<and> type (last (tokens (doc p))) \<noteq> LINEBREAK)
           then (tok_push_back c p)\<lparr>partial_tok_type := P_STRING_NAKED\<rparr>
           else tok_push_back c (p\<lparr>partial_tok_type := P_GARBAGE\<rparr>))
      else if c = DQUOTE then
        inc_line_pos (p\<lparr>partial_tok_type := P_STRING_QUOTED\<rparr>)
      else if c = CHR ''.'' then
        inc_line_pos ((tok_push_back c p)\<lparr>partial_tok_type := P_NUMBER_DOT\<rparr>)
      else if c = CHR ''-'' then
        inc_line_pos ((tok_push_back c p)\<lparr>partial_tok_type := P_NUMBER\<rparr>)
      else if c = CHR ''t'' then
        inc_line_pos ((tok_push_back c p)\<lparr>partial_tok_type := P_BOOL_TRUE\<rparr>)
      else if c = CHR ''f'' then
        inc_line_pos ((tok_push_back c p)\<lparr>partial_tok_type := P_BOOL_FALSE\<rparr>)
      else
        inc_line_pos
          (if isdigit c
           then (tok_push_back c p)\<lparr>partial_tok_type := P_NUMBER\<rparr>
           else if isalpha c \<and> on_line_start p
           then (tok_push_back c p)\<lparr>partial_tok_type := P_KEYWORD\<rparr>
           else if has_option p OPTION_ALLOW_NAKED_STRINGS
           then (tok_push_back c p)\<lparr>partial_tok_type := P_STRING_NAKED\<rparr>
           else tok_push_back c (p\<lparr>partial_tok_type := P_GARBAGE\<rparr>)))"

definition title_override :: "DocumentParser \<Rightarrow> DocumentParser" where
  "title_override p =
     (if has_option p OPTION_FIRST_LINE_IS_TITLE
         \<and> \<not> title_found p
         \<and> on_line_start p
         \<and> partial_tok_type p \<noteq> P_NONE
         \<and> partial_tok_type p \<noteq> P_COMMENT_SEMICOLON
         \<and> partial_tok_type p \<noteq> P_COMMENT_SLASH
      then p\<lparr>title_found := True, partial_tok_type := P_TITLE_STRING\<rparr>
      else p)"

definition BeginToken :: "char \<Rightarrow> DocumentParser \<Rightarrow> DocumentParser" where
  "BeginToken c p =
     warn_if_garbage (\<lambda>l n. StrayCharacter l n c) (title_override (begin_switch c p))"

definition UpdateComment :: "char \<Rightarrow> DocumentParser \<Rightarrow> DocumentParser" where
  "UpdateComment c p =
    (if c = CR then p
     else if c = LF then break_line (flush_text COMMENT p)
     else if c = CHR ''/'' then
       inc_line_pos
         (if partial_tok_type p \<noteq> P_COMMENT_SLASH \<or> length (tok p) > 0
          then tok_push_back c p
          else p)
     else inc_line_pos (tok_push_back c p))"

definition UpdateString :: "char \<Rightarrow> DocumentParser \<Rightarrow> DocumentParser" where
  "UpdateString c p =
    warn_if_garbage (\<lambda>l n. StrayCharacterInString l n c)
       (if c = CR then p
        else if c = SPACE \<or> c = CHR '','' \<or> c = TAB then
          inc_line_pos
            (if partial_tok_type p = P_STRING_QUOTED
             then tok_push_back NUL p
             else flush_text STRING p)
        else if c = LF then
          break_line
            (flush_text STRING
              (if partial_tok_type p = P_STRING_QUOTED
               then put_message (QuotedStringInterrupted (line_num p) (line_pos p)) p
               else p))
        else if c = DQUOTE then
          inc_line_pos
            (if partial_tok_type p = P_STRING_QUOTED
             then flush_text STRING p
             else tok_push_back c (p\<lparr>partial_tok_type := P_GARBAGE\<rparr>))
        else inc_line_pos (tok_push_back c p))"

text \<open>The \<^verbatim>\<open>switch\<close> of \<^verbatim>\<open>UpdateNumber\<close> has no \<^verbatim>\<open>default\<close> label: a character that is
  none of its cases changes nothing.\<close>

definition UpdateNumber :: "char \<Rightarrow> DocumentParser \<Rightarrow> DocumentParser" where
  "UpdateNumber c p =
    warn_if_garbage (\<lambda>l n. StrayCharacterInNumber l n c)
       (if c = CR then p
        else if c = SPACE \<or> c = CHR '','' \<or> c = TAB then inc_line_pos (flush_number p)
        else if c = LF then break_line (flush_number p)
        else if c = CHR ''-'' then
          inc_line_pos (tok_push_back c (p\<lparr>partial_tok_type := P_GARBAGE\<rparr>))
        else if c = CHR ''.'' then
          inc_line_pos
            (if partial_tok_type p = P_NUMBER
             then (tok_push_back c p)\<lparr>partial_tok_type := P_NUMBER_DOT\<rparr>
             else tok_push_back c (p\<lparr>partial_tok_type := P_GARBAGE\<rparr>))
        else p)"

text \<open>The block under \<^verbatim>\<open>// Discard token\<close> of \<^verbatim>\<open>UpdateBool\<close>, before the position moves.\<close>

definition discard_bool :: "DocumentParser \<Rightarrow> DocumentParser" where
  "discard_bool p =
     (let p1 = tok_push_back NUL p;
          p2 = put_message
                 (DiscardingIncompleteBoolean (line_num p1) (line_pos p1) (c_str (tok p1))) p1
      in p2\<lparr>tok := [], partial_tok_type := P_NONE\<rparr>)"

definition UpdateBool :: "char \<Rightarrow> DocumentParser \<Rightarrow> DocumentParser" where
  "UpdateBool c p =
    warn_if_garbage (\<lambda>l n. StrayCharacterInBoolean l n c)
       (if c = CR then p
        else if c = SPACE \<or> c = CHR '','' \<or> c = TAB then inc_line_pos (discard_bool p)
        else if c = LF then break_line (discard_bool p)
        else if c = CHR ''r'' then
          inc_line_pos (tok_push_back c
            (if partial_tok_type p \<noteq> P_BOOL_TRUE \<or> length (tok p) \<noteq> 1
             then downgrade_bool p else p))
        else if c = CHR ''u'' then
          inc_line_pos (tok_push_back c
            (if partial_tok_type p \<noteq> P_BOOL_TRUE \<or> length (tok p) \<noteq> 2
             then downgrade_bool p else p))
        else if c = CHR ''a'' then
          inc_line_pos (tok_push_back c
            (if partial_tok_type p \<noteq> P_BOOL_FALSE \<or> length (tok p) \<noteq> 1
             then downgrade_bool p else p))
        else if c = CHR ''l'' then
          inc_line_pos (tok_push_back c
            (if partial_tok_type p \<noteq> P_BOOL_FALSE \<or> length (tok p) \<noteq> 2
             then downgrade_bool p else p))
        else if c = CHR ''s'' then
          inc_line_pos (tok_push_back c
            (if partial_tok_type p \<noteq> P_BOOL_FALSE \<or> length (tok p) \<noteq> 3
             then downgrade_bool p else p))
        else if c = CHR ''e'' then
          inc_line_pos
            (if partial_tok_type p = P_BOOL_TRUE \<and> length (tok p) = 3
             then (push_token BOOL 1 p)\<lparr>tok := [], partial_tok_type := P_NONE\<rparr>
             else if partial_tok_type p = P_BOOL_FALSE \<and> length (tok p) = 4
             then (push_token BOOL 0 p)\<lparr>tok := [], partial_tok_type := P_NONE\<rparr>
             else tok_push_back c (downgrade_bool p))
        else tok_push_back c (downgrade_bool p))"

definition UpdateKeyword :: "char \<Rightarrow> DocumentParser \<Rightarrow> DocumentParser" where
  "UpdateKeyword c p =
    warn_if_garbage (\<lambda>l n. StrayCharacterInKeyword l n c)
       (if c = CR then p
        else if c = SPACE \<or> c = CHR '','' \<or> c = TAB then inc_line_pos (flush_text KEYWORD p)
        else if c = LF then break_line (flush_text KEYWORD p)
        else
          inc_line_pos (tok_push_back c
            (if \<not> isalnum c then p\<lparr>partial_tok_type := P_GARBAGE\<rparr> else p)))"

definition UpdateTitle :: "char \<Rightarrow> DocumentParser \<Rightarrow> DocumentParser" where
  "UpdateTitle c p =
    (if c = CR then p
     else if c = LF then break_line (flush_text STRING p)
     else inc_line_pos (tok_push_back c p))"

definition UpdateGarbage :: "char \<Rightarrow> DocumentParser \<Rightarrow> DocumentParser" where
  "UpdateGarbage c p =
    (if c = CR then p
     else if c = SPACE \<or> c = CHR '','' \<or> c = TAB \<or> c = LF then
       (let p1 = tok_push_back NUL p;
            p2 = put_message (DiscardingGarbage (line_num p1) (line_pos p1) (c_str (tok p1))) p1
        in inc_line_pos (p2\<lparr>tok := [], partial_tok_type := P_NONE\<rparr>))
     else inc_line_pos (tok_push_back c p))"

subsection \<open>Loading a document\<close>

text \<open>The body of the \<^verbatim>\<open>for\<close> loop of \<^verbatim>\<open>LoadFromDataStream\<close>: one character goes to the
  handler of the current partial token kind.\<close>

definition process_char :: "char \<Rightarrow> DocumentParser \<Rightarrow> DocumentParser" where
  "process_char c p =
    (case partial_tok_type p of
       P_NONE \<Rightarrow> BeginToken c p
     | P_COMMENT_SEMICOLON \<Rightarrow> UpdateComment c p
     | P_COMMENT_SLASH \<Rightarrow> UpdateComment c p
     | P_STRING_QUOTED \<Rightarrow> UpdateString c p
     | P_STRING_NAKED \<Rightarrow> UpdateString c p
     | P_NUMBER \<Rightarrow> UpdateNumber c p
     | P_NUMBER_DOT \<Rightarrow> UpdateNumber c p
     | P_BOOL_TRUE \<Rightarrow> UpdateBool c p
     | P_BOOL_FALSE \<Rightarrow> UpdateBool c p
     | P_KEYWORD \<Rightarrow> UpdateKeyword c p
     | P_TITLE_STRING \<Rightarrow> UpdateTitle c p
     | P_GARBAGE \<Rightarrow> UpdateGarbage c p)"

text \<open>
  The two nested loops: the stream is read in chunks of 10 KiB and every byte of every chunk
  is processed in order, the parser's state living across chunks; so the loops process the
  bytes of the stream from first to last.
\<close>

fun parse_text :: "char list \<Rightarrow> DocumentParser \<Rightarrow> DocumentParser" where
  "parse_text [] p = p"
| "parse_text (c # cs) p = parse_text cs (process_char c p)"

definition new_parser :: "32 word \<Rightarrow> DocumentParser" where
  "new_parser opt =
     \<lparr>doc = \<lparr>tokens = [], string_pool = []\<rparr>, options = opt, tok = [],
      line_num = 0, line_pos = 0, partial_tok_type = P_NONE, title_found = False,
      console = []\<rparr>"

text \<open>The block under \<^verbatim>\<open>// Ensure newline at end of file\<close>.\<close>

definition ensure_final_newline :: "GenericDocument \<Rightarrow> GenericDocument" where
  "ensure_final_newline d =
     (if tokens d = [] \<or> type (last (tokens d)) \<noteq> LINEBREAK
      then d\<lparr>tokens := tokens d @ [\<lparr>type = LINEBREAK, data = 0\<rparr>]\<rparr>
      else d)"

text \<open>\<^verbatim>\<open>GenericDocument::LoadFromDataStream\<close>: the document is reset, so the result does not
  depend on what it held before; the bytes of the stream and the options decide it.\<close>

definition LoadFromDataStream :: "char list \<Rightarrow> 32 word \<Rightarrow> GenericDocument" where
  "LoadFromDataStream datastream opt =
     ensure_final_newline (doc (parse_text datastream (new_parser opt)))"

section \<open>The serializer\<close>

text \<open>\<^verbatim>\<open>EOL_STR\<close>: CR+LF when the platform is Win32, LF otherwise.\<close>

definition EOL_STR :: "bool \<Rightarrow> string" where
  "EOL_STR win32 = (if win32 then [CR, LF] else [LF])"

text \<open>
  \<^verbatim>\<open>string_pool.data() + (size_t)tok.data\<close>, read as a C string by \<^verbatim>\<open>strlen\<close>: the bytes of
  the pool from the offset to the first NUL. (An offset that is negative or beyond the pool
  is undefined behaviour in the source; here it reads from 0, or reads nothing.)
\<close>

definition pool_str :: "GenericDocument \<Rightarrow> Token \<Rightarrow> string" where
  "pool_str d t = c_str (drop (nat \<lfloor>data t\<rfloor>) (string_pool d))"

text \<open>
  Modelled from the spec: \<^verbatim>\<open>snprintf(buf, BUF_MAX, "%f", x)\<close> is the C library's and not
  among the sources. The spec calls it fixed-point formatting with six decimals: a minus sign
  for a negative value, the integer part in decimal, a dot, and six decimals, rounded to
  nearest with ties to even; at most \<^verbatim>\<open>BUF_MAX - 1 = 99\<close> characters are kept.
\<close>

definition round_half_even :: "real \<Rightarrow> int" where
  "round_half_even x =
     (let f = \<lfloor>x\<rfloor>; r = x - of_int f
      in if r < 1 / 2 then f
         else if 1 / 2 < r then f + 1
         else if even f then f else f + 1)"

definition digit_char :: "nat \<Rightarrow> char" where
  "digit_char n = ''0123456789'' ! n"

fun decimal :: "nat \<Rightarrow> string" where
  "decimal n = (if n < 10 then [digit_char n] else decimal (n div 10) @ [digit_char (n mod 10)])"

declare decimal.simps [simp del]

definition snprintf_f :: "real \<Rightarrow> string" where
  "snprintf_f x =
     (let n = nat (round_half_even (\<bar>x\<bar> * 10 ^ 6));
          ip = n div 10 ^ 6;
          fp = n mod 10 ^ 6;
          decimals = map (\<lambda>k. digit_char (fp div 10 ^ k mod 10)) [5, 4, 3, 2, 1, 0]
      in take 99 ((if x < 0 then ''-'' else []) @ decimal ip @ ''.'' @ decimals))"

text \<open>The state of the loop of \<^verbatim>\<open>SaveToDataStream\<close>: the bytes written to the stream so far
  and the local \<^verbatim>\<open>separator\<close>.\<close>

record SaveState =
  written :: string
  separator :: string

text \<open>The body of the loop: the \<^verbatim>\<open>switch\<close> on the token's kind.\<close>

definition save_token :: "bool \<Rightarrow> GenericDocument \<Rightarrow> Token \<Rightarrow> SaveState \<Rightarrow> SaveState" where
  "save_token win32 d t st =
    (case type t of
       LINEBREAK \<Rightarrow> \<lparr>written = written st @ EOL_STR win32, separator = []\<rparr>
     | COMMENT \<Rightarrow> st\<lparr>written := written st @ '';'' @ pool_str d t\<rparr>
     | STRING \<Rightarrow> \<lparr>written = written st @ separator st @ pool_str d t, separator = '',''\<rparr>
     | NUMBER \<Rightarrow> \<lparr>written = written st @ separator st @ snprintf_f (data t), separator = '',''\<rparr>
     | BOOL \<Rightarrow>
         \<lparr>written = written st @ separator st @ (if data t = 1 then ''true'' else ''false''),
          separator = '',''\<rparr>
     | KEYWORD \<Rightarrow> \<lparr>written = written st @ pool_str d t, separator = '' ''\<rparr>)"

fun save_tokens :: "bool \<Rightarrow> GenericDocument \<Rightarrow> Token list \<Rightarrow> SaveState \<Rightarrow> SaveState" where
  "save_tokens win32 d [] st = st"
| "save_tokens win32 d (t # ts) st = save_tokens win32 d ts (save_token win32 d t st)"

text \<open>\<^verbatim>\<open>GenericDocument::SaveToDataStream\<close>: the bytes it writes to the stream.\<close>

definition SaveToDataStream :: "bool \<Rightarrow> GenericDocument \<Rightarrow> string" where
  "SaveToDataStream win32 d =
     written (save_tokens win32 d (tokens d) \<lparr>written = [], separator = []\<rparr>)"

section \<open>The document reader\<close>

text \<open>\<^verbatim>\<open>struct GenericDocReader\<close>: a document and a cursor into its token list.\<close>

record GenericDocReader =
  reader_doc :: GenericDocument
  token_pos :: nat

text \<open>
  Modelled from the spec: \<^verbatim>\<open>EndOfFile(offset)\<close> and \<^verbatim>\<open>GetTokType(offset)\<close> are defined in
  \<^verbatim>\<open>GenericFileFormat.h\<close>, which is not among the sources. By the spec the cursor is an
  index into the token list; the end of the stream is reached when the cursor, moved by the
  offset, is no longer inside the list, and the kind read is the kind of the token there
  (\<open>None\<close> past the end, where \<^verbatim>\<open>CountLineArgs\<close> never reads).
\<close>

definition EndOfFile :: "GenericDocReader \<Rightarrow> nat \<Rightarrow> bool" where
  "EndOfFile r offset = (length (tokens (reader_doc r)) \<le> token_pos r + offset)"

definition GetTokType :: "GenericDocReader \<Rightarrow> nat \<Rightarrow> TokenType option" where
  "GetTokType r offset =
     (if EndOfFile r offset then None
      else Some (type (tokens (reader_doc r) ! (token_pos r + offset))))"

text \<open>The \<^verbatim>\<open>while\<close> loop of \<^verbatim>\<open>CountLineArgs\<close>, from a value of the local \<^verbatim>\<open>count\<close>.\<close>

function count_loop :: "GenericDocReader \<Rightarrow> nat \<Rightarrow> nat" where
  "count_loop r count =
     (if \<not> EndOfFile r count \<and> GetTokType r count \<noteq> Some LINEBREAK
      then count_loop r (count + 1)
      else count)"
  by pat_completeness auto
termination
  by (relation "measure (\<lambda>(r, count). length (tokens (reader_doc r)) - (token_pos r + count))")
     (auto simp: EndOfFile_def)

declare count_loop.simps [simp del]

text \<open>\<^verbatim>\<open>GenericDocReader::CountLineArgs\<close>: the count it returns, and the reader as it leaves
  it (the method assigns to no member).\<close>

definition CountLineArgs :: "GenericDocReader \<Rightarrow> int \<times> GenericDocReader" where
  "CountLineArgs r = (int (count_loop r 0), r)"

section \<open>A predicate on token lists\<close>

text \<open>Every COMMENT token of the list is directly followed by a LINEBREAK token.\<close>

fun comments_closed :: "Token list \<Rightarrow> bool" where
  "comments_closed [] = True"
| "comments_closed [t] = (type t \<noteq> COMMENT)"
| "comments_closed (t # u # ts) =
     ((if type t = COMMENT then type u = LINEBREAK else True) \<and> comments_closed (u # ts))"

section \<open>The lines of an input\<close>

text \<open>
  The characters \<^verbatim>\<open>BeginToken\<close> passes over without starting a token or ending the line:
  the separators and CR.
\<close>

definition skippable :: "char \<Rightarrow> bool" where
  "skippable c = (is_separator c \<or> c = CR)"

text \<open>
  A line is the text between two newlines. It is blank when it holds nothing else than
  separators and CR; a comment line when its first other character starts a comment (a
  semicolon, or a slash when slash comments are allowed); a content line otherwise. The
  options are those of the load.
\<close>

definition blank_line :: "string \<Rightarrow> bool" where
  "blank_line l = (dropWhile skippable l = [])"

definition comment_line :: "32 word \<Rightarrow> string \<Rightarrow> bool" where
  "comment_line opt l =
     (case dropWhile skippable l of
        [] \<Rightarrow> False
      | c # body \<Rightarrow>
          (c = CHR '';'' \<or> c = CHR ''/'' \<and> opt AND OPTION_ALLOW_SLASH_COMMENTS \<noteq> 0)
          \<and> LF \<notin> set body)"

definition content_line :: "32 word \<Rightarrow> string \<Rightarrow> bool" where
  "content_line opt l =
     (case dropWhile skippable l of
        [] \<Rightarrow> False
      | c # rest \<Rightarrow>
          c \<noteq> LF \<and> c \<noteq> CHR '';''
          \<and> (c = CHR ''/'' \<longrightarrow> opt AND OPTION_ALLOW_SLASH_COMMENTS = 0)
          \<and> LF \<notin> set rest)"




section \<open>Properties\<close>

lemmas handler_defs =
  process_char_def BeginToken_def begin_switch_def title_override_def UpdateComment_def UpdateKeyword_def UpdateNumber_def
  UpdateString_def UpdateBool_def UpdateTitle_def UpdateGarbage_def

lemmas block_defs =
  flush_text_def flush_number_def push_token_def break_line_def put_message_def
  tok_push_back_def inc_line_pos_def discard_bool_def downgrade_bool_def
  warn_if_garbage_def on_line_start_def

lemmas eval_defs =
  handler_defs block_defs LoadFromDataStream_def new_parser_def ensure_final_newline_def
  has_option_def isdigit_def isalpha_def isalnum_def parseReal_def c_str_def
  digits_value_def pool_str_def
  OPTION_ALLOW_NAKED_STRINGS_def OPTION_ALLOW_SLASH_COMMENTS_def OPTION_FIRST_LINE_IS_TITLE_def
  Let_def

lemma parse_text_append: "parse_text (xs @ ys) p = parse_text ys (parse_text xs p)"
  by (induction xs arbitrary: p) simp_all

lemma float_of_size_small: "n < 2 ^ 24 \<Longrightarrow> float_of_size n = real n"
  by (simp add: float_of_size_def float_shift.simps)

lemma float_of_size_rounds: "float_of_size 16777217 = 16777216"
  by (simp add: float_of_size_def float_shift.simps)

subsection \<open>What each block leaves unchanged\<close>

lemma block_doc:
  "doc (inc_line_pos p) = doc p"
  "doc (tok_push_back c p) = doc p"
  "doc (put_message w p) = doc p"
  "doc (discard_bool p) = doc p"
  "doc (downgrade_bool p) = doc p"
  "doc (warn_if_garbage f p) = doc p"
  "doc (title_override p) = doc p"
  by (simp_all add: block_defs title_override_def Let_def)

lemma block_tokens:
  "tokens (doc (push_token ty v p)) = tokens (doc p) @ [\<lparr>type = ty, data = v\<rparr>]"
  "tokens (doc (flush_text ty p)) =
     tokens (doc p) @ [\<lparr>type = ty, data = float_of_size (length (string_pool (doc p)))\<rparr>]"
  "tokens (doc (flush_number p)) =
     tokens (doc p) @ [\<lparr>type = NUMBER, data = parseReal (tok p @ [NUL])\<rparr>]"
  "tokens (doc (break_line p)) = tokens (doc p) @ [\<lparr>type = LINEBREAK, data = 0\<rparr>]"
  by (simp_all add: block_defs Let_def)



subsection \<open>The example line\<close>

text \<open>
  C1. The spec expects the line \<^verbatim>\<open>key 1 2.5 "a b" true false\<close>, loaded with no option set, to
  give KEYWORD("key"), NUMBER(1), NUMBER(2.5), STRING("a b"), BOOL(1), BOOL(0), LINEBREAK.
  The code gives NUMBER(2) for the third token, because \<^verbatim>\<open>UpdateNumber\<close> drops the digit 5,
  and the pool holds \<^verbatim>\<open>a\<close>, NUL, \<^verbatim>\<open>b\<close>, NUL at the string's offset 4, because
  \<^verbatim>\<open>UpdateString\<close> stores NUL for the space inside the quotes: the string reads \<^verbatim>\<open>a\<close>.
\<close>

theorem load_example_line:
  "LoadFromDataStream
     (''key 1 2.5 '' @ [DQUOTE] @ ''a b'' @ [DQUOTE] @ '' true false'') 0 =
   \<lparr>tokens =
      [\<lparr>type = KEYWORD, data = 0\<rparr>, \<lparr>type = NUMBER, data = 1\<rparr>,
       \<lparr>type = NUMBER, data = 2\<rparr>, \<lparr>type = STRING, data = 4\<rparr>,
       \<lparr>type = BOOL, data = 1\<rparr>, \<lparr>type = BOOL, data = 0\<rparr>,
       \<lparr>type = LINEBREAK, data = 0\<rparr>],
    string_pool = ''key'' @ [NUL] @ ''a'' @ [NUL] @ ''b'' @ [NUL]\<rparr>
   \<and> pool_str
        (LoadFromDataStream
          (''key 1 2.5 '' @ [DQUOTE] @ ''a b'' @ [DQUOTE] @ '' true false'') 0)
        \<lparr>type = STRING, data = 4\<rparr> = ''a''"
  by (simp add: eval_defs float_of_size_small)

subsection \<open>Digits inside a number\<close>

lemma number_ignores_digit:
  "partial_tok_type p = P_NUMBER \<or> partial_tok_type p = P_NUMBER_DOT \<Longrightarrow> isdigit c \<Longrightarrow>
   process_char c p = p"
  by (auto simp add: process_char_def UpdateNumber_def warn_if_garbage_def isdigit_def)

text \<open>
  C2. The spec expects every digit that arrives inside a number to be appended to the buffer.
  In the code a digit that arrives in state NUMBER or NUMBER_DOT changes nothing: after
  \<^verbatim>\<open>12\<close> the buffer holds \<^verbatim>\<open>1\<close>, and the line \<^verbatim>\<open>12\<close> loads as NUMBER(1); after
  \<^verbatim>\<open>2.5\<close> the buffer holds \<^verbatim>\<open>2.\<close>.
\<close>

theorem number_drops_later_digits:
  "tok (parse_text ''12'' (new_parser 0)) = ''1''
   \<and> tok (parse_text ''2.5'' (new_parser 0)) = ''2.''
   \<and> LoadFromDataStream (''12'' @ [LF]) 0 =
       \<lparr>tokens = [\<lparr>type = NUMBER, data = 1\<rparr>, \<lparr>type = LINEBREAK, data = 0\<rparr>],
        string_pool = []\<rparr>"
  by (simp add: eval_defs float_of_size_small)

subsection \<open>End of input inside a token\<close>

text \<open>
  C3. The spec expects the partial token left at the end of the input to be flushed before
  the final LINEBREAK. The code only appends the LINEBREAK: the bytes \<^verbatim>\<open>key\<close> load as a
  lone LINEBREAK with an empty pool, the keyword still in the parser's buffer, while the same
  bytes followed by a newline load as KEYWORD("key"), LINEBREAK.
\<close>

theorem load_key_without_newline:
  "LoadFromDataStream ''key'' 0 =
     \<lparr>tokens = [\<lparr>type = LINEBREAK, data = 0\<rparr>], string_pool = []\<rparr>
   \<and> tok (parse_text ''key'' (new_parser 0)) = ''key''
   \<and> partial_tok_type (parse_text ''key'' (new_parser 0)) = P_KEYWORD
   \<and> LoadFromDataStream (''key'' @ [LF]) 0 =
       \<lparr>tokens = [\<lparr>type = KEYWORD, data = 0\<rparr>, \<lparr>type = LINEBREAK, data = 0\<rparr>],
        string_pool = ''key'' @ [NUL]\<rparr>"
  by (simp add: eval_defs float_of_size_small)

subsection \<open>The last token of a loaded document\<close>

lemma ensure_final_newline_last:
  "tokens (ensure_final_newline d) \<noteq> [] \<and>
   type (last (tokens (ensure_final_newline d))) = LINEBREAK"
  by (simp add: ensure_final_newline_def)

text \<open>
  C4. For every input and every value of the options, the token list of the loaded document
  is not empty and its last token is a LINEBREAK.
\<close>

theorem load_ends_with_linebreak:
  "tokens (LoadFromDataStream datastream opt) \<noteq> [] \<and>
   type (last (tokens (LoadFromDataStream datastream opt))) = LINEBREAK"
  unfolding LoadFromDataStream_def by (rule ensure_final_newline_last)

theorem load_ends_with_linebreak_witness:
  "tokens (LoadFromDataStream ''set 3'' 7) \<noteq> [] \<and>
   type (last (tokens (LoadFromDataStream ''set 3'' 7))) = LINEBREAK"
  by (rule load_ends_with_linebreak)

subsection \<open>A keyword with a stray character\<close>

lemma garbage_run:
  "partial_tok_type p = P_GARBAGE \<Longrightarrow> \<forall>x\<in>set cs. \<not> is_separator x \<and> x \<noteq> LF \<Longrightarrow>
   partial_tok_type (parse_text cs p) = P_GARBAGE \<and> doc (parse_text cs p) = doc p"
proof (induction cs arbitrary: p)
  case Nil
  then show ?case by simp
next
  case (Cons c cs)
  from Cons.prems
  have step: "partial_tok_type (process_char c p) = P_GARBAGE \<and> doc (process_char c p) = doc p"
    by (simp add: process_char_def UpdateGarbage_def is_separator_def inc_line_pos_def
          tok_push_back_def)
  with Cons.IH [of "process_char c p"] Cons.prems show ?case by simp
qed

lemma garbage_end:
  "partial_tok_type p = P_GARBAGE \<Longrightarrow> is_separator t \<or> t = LF \<Longrightarrow>
   process_char t p =
     p\<lparr>tok := [], partial_tok_type := P_NONE, line_pos := line_pos p + 1,
       console := console p @
         [DiscardingGarbage (line_num p) (line_pos p) (c_str (tok p @ [NUL]))]\<rparr>"
  by (auto simp add: process_char_def UpdateGarbage_def is_separator_def inc_line_pos_def
        tok_push_back_def put_message_def Let_def)

lemma keyword_stray:
  "partial_tok_type p = P_KEYWORD \<Longrightarrow> \<not> isalnum c \<Longrightarrow> \<not> is_separator c \<Longrightarrow>
   c \<noteq> CR \<Longrightarrow> c \<noteq> LF \<Longrightarrow>
   process_char c p =
     p\<lparr>tok := tok p @ [c], partial_tok_type := P_GARBAGE, line_pos := line_pos p + 1,
       console := console p @ [StrayCharacterInKeyword (line_num p) (line_pos p + 1) c]\<rparr>"
  by (simp add: process_char_def UpdateKeyword_def is_separator_def inc_line_pos_def
        tok_push_back_def put_message_def warn_if_garbage_def)

text \<open>
  C5, as the code has it. When a character that is not alphanumeric (and is no separator, CR
  or newline) arrives in state KEYWORD, it is appended to the buffer, the partial token
  becomes GARBAGE and a warning is sent; whatever follows up to the next separator or
  newline is handled as garbage, and at that separator or newline the buffer is discarded:
  the document (tokens and pool) is what it was before the stray character, so no KEYWORD
  token is emitted.
\<close>

theorem malformed_keyword_discarded:
  assumes "partial_tok_type p = P_KEYWORD"
    and "\<not> isalnum c" and "\<not> is_separator c" and "c \<noteq> CR" and "c \<noteq> LF"
    and "\<forall>x\<in>set cs. \<not> is_separator x \<and> x \<noteq> LF"
    and "is_separator t \<or> t = LF"
  shows "process_char c p =
     p\<lparr>tok := tok p @ [c], partial_tok_type := P_GARBAGE, line_pos := line_pos p + 1,
       console := console p @ [StrayCharacterInKeyword (line_num p) (line_pos p + 1) c]\<rparr>
   \<and> doc (parse_text (c # cs @ [t]) p) = doc p
   \<and> partial_tok_type (parse_text (c # cs @ [t]) p) = P_NONE
   \<and> tok (parse_text (c # cs @ [t]) p) = []"
proof -
  let ?q = "process_char c p"
  have q: "?q = p\<lparr>tok := tok p @ [c], partial_tok_type := P_GARBAGE,
       line_pos := line_pos p + 1,
       console := console p @ [StrayCharacterInKeyword (line_num p) (line_pos p + 1) c]\<rparr>"
    using assms by (simp add: keyword_stray)
  then have "partial_tok_type ?q = P_GARBAGE" and dq: "doc ?q = doc p" by simp_all
  with assms(6)
  have run: "partial_tok_type (parse_text cs ?q) = P_GARBAGE" "doc (parse_text cs ?q) = doc p"
    using garbage_run [of ?q cs] by simp_all
  have "parse_text (c # cs @ [t]) p = process_char t (parse_text cs ?q)"
    by (simp add: parse_text_append)
  with run assms(7) q show ?thesis
    by (simp add: garbage_end)
qed

theorem malformed_keyword_discarded_witness:
  "partial_tok_type (parse_text ''ab'' (new_parser 0)) = P_KEYWORD
   \<and> doc (parse_text (CHR ''$'' # ''c'' @ [SPACE]) (parse_text ''ab'' (new_parser 0)))
       = doc (parse_text ''ab'' (new_parser 0))
   \<and> partial_tok_type
       (parse_text (CHR ''$'' # ''c'' @ [SPACE]) (parse_text ''ab'' (new_parser 0))) = P_NONE"
proof -
  have kw: "partial_tok_type (parse_text ''ab'' (new_parser 0)) = P_KEYWORD"
    by (simp add: eval_defs float_of_size_small)
  have c: "\<not> isalnum CHR ''$''" "\<not> is_separator CHR ''$''" "CHR ''$'' \<noteq> CR" "CHR ''$'' \<noteq> LF"
    by (simp_all add: isalnum_def isalpha_def isdigit_def is_separator_def)
  have cs: "\<forall>x\<in>set ''c''. \<not> is_separator x \<and> x \<noteq> LF"
    by (simp add: is_separator_def)
  have t: "is_separator SPACE \<or> SPACE = LF"
    by (simp add: is_separator_def)
  from malformed_keyword_discarded [OF kw c cs t] kw show ?thesis
    by blast
qed

text \<open>
  The claim C5 as the spec words it fails: loading \<^verbatim>\<open>ab$c\<close>, a space and a newline, with no
  option set, emits no KEYWORD token and leaves the pool empty. The two warnings are the
  stray character and the discarded garbage token.
\<close>

theorem malformed_keyword_counterexample:
  "parse_text ''ab$c '' (new_parser 0) =
     \<lparr>doc = \<lparr>tokens = [], string_pool = []\<rparr>, options = 0, tok = [], line_num = 0,
      line_pos = 5, partial_tok_type = P_NONE, title_found = False,
      console = [StrayCharacterInKeyword 0 3 CHR ''$'', DiscardingGarbage 0 4 ''ab$c'']\<rparr>
   \<and> LoadFromDataStream (''ab$c '' @ [LF]) 0 =
       \<lparr>tokens = [\<lparr>type = LINEBREAK, data = 0\<rparr>], string_pool = []\<rparr>"
  by (simp add: eval_defs float_of_size_small)

subsection \<open>Saving a keyword line\<close>

lemma decimal_3: "decimal 3 = ''3''"
  by (simp add: decimal.simps digit_char_def)

lemma round_3: "round_half_even (\<bar>3\<bar> * 10 ^ 6) = 3000000"
  by (simp add: round_half_even_def)

lemma snprintf_f_3: "snprintf_f 3 = ''3.000000''"
  unfolding snprintf_f_def Let_def round_3 by (simp add: decimal_3 digit_char_def)

text \<open>
  C8. A document whose tokens are KEYWORD("set"), NUMBER(3), LINEBREAK is saved as the bytes
  \<^verbatim>\<open>set 3.000000\<close> followed by the platform's line terminator. Token by token: a KEYWORD
  is written with no separator before it and sets the separator to one space; a NUMBER is
  written after the separator, in fixed-point notation with six decimals, and sets the
  separator to a comma; a LINEBREAK writes the line terminator and empties the separator.
\<close>

theorem save_keyword_number_line:
  "(tokens d = [\<lparr>type = KEYWORD, data = off\<rparr>, \<lparr>type = NUMBER, data = 3\<rparr>,
                \<lparr>type = LINEBREAK, data = x\<rparr>]
      \<and> pool_str d \<lparr>type = KEYWORD, data = off\<rparr> = ''set''
    \<longrightarrow> SaveToDataStream win32 d = ''set 3.000000'' @ EOL_STR win32)
   \<and> (type t = KEYWORD \<longrightarrow>
        save_token win32 d t st = \<lparr>written = written st @ pool_str d t, separator = '' ''\<rparr>)
   \<and> (type t = NUMBER \<longrightarrow>
        save_token win32 d t st =
          \<lparr>written = written st @ separator st @ snprintf_f (data t), separator = '',''\<rparr>)
   \<and> (type t = LINEBREAK \<longrightarrow>
        save_token win32 d t st = \<lparr>written = written st @ EOL_STR win32, separator = []\<rparr>)
   \<and> snprintf_f 3 = ''3.000000''"
  by (simp add: SaveToDataStream_def save_token_def snprintf_f_3)

theorem save_keyword_number_line_witness:
  "SaveToDataStream False
     \<lparr>tokens = [\<lparr>type = KEYWORD, data = 0\<rparr>, \<lparr>type = NUMBER, data = 3\<rparr>,
                \<lparr>type = LINEBREAK, data = 0\<rparr>],
      string_pool = ''set'' @ [NUL]\<rparr> = ''set 3.000000'' @ [LF]
  \<and> SaveToDataStream True
     \<lparr>tokens = [\<lparr>type = KEYWORD, data = 0\<rparr>, \<lparr>type = NUMBER, data = 3\<rparr>,
                \<lparr>type = LINEBREAK, data = 0\<rparr>],
      string_pool = ''set'' @ [NUL]\<rparr> = ''set 3.000000'' @ [CR, LF]
  \<and> save_token False \<lparr>tokens = [], string_pool = ''set'' @ [NUL]\<rparr>
        \<lparr>type = KEYWORD, data = 0\<rparr> \<lparr>written = [], separator = '',''\<rparr> =
      \<lparr>written = ''set'', separator = '' ''\<rparr>
  \<and> save_token False \<lparr>tokens = [], string_pool = ''set'' @ [NUL]\<rparr>
        \<lparr>type = NUMBER, data = 3\<rparr> \<lparr>written = ''set'', separator = '' ''\<rparr> =
      \<lparr>written = ''set 3.000000'', separator = '',''\<rparr>
  \<and> save_token False \<lparr>tokens = [], string_pool = ''set'' @ [NUL]\<rparr>
        \<lparr>type = LINEBREAK, data = 0\<rparr> \<lparr>written = ''set 3.000000'', separator = '',''\<rparr> =
      \<lparr>written = ''set 3.000000'' @ [LF], separator = []\<rparr>"
proof -
  let ?d = "\<lparr>tokens = [\<lparr>type = KEYWORD, data = 0\<rparr>, \<lparr>type = NUMBER, data = 3\<rparr>,
                       \<lparr>type = LINEBREAK, data = 0\<rparr>],
            string_pool = ''set'' @ [NUL]\<rparr>"
  let ?e = "\<lparr>tokens = [], string_pool = ''set'' @ [NUL]\<rparr>"
  have pool: "pool_str ?d \<lparr>type = KEYWORD, data = 0\<rparr> = ''set''"
    by (simp add: pool_str_def c_str_def)
  have whole: "SaveToDataStream False ?d = ''set 3.000000'' @ [LF]"
    "SaveToDataStream True ?d = ''set 3.000000'' @ [CR, LF]"
    using pool save_keyword_number_line [of ?d 0 0 False]
      save_keyword_number_line [of ?d 0 0 True]
    by (simp_all add: EOL_STR_def)
  have steps:
    "save_token False ?e \<lparr>type = KEYWORD, data = 0\<rparr> \<lparr>written = [], separator = '',''\<rparr> =
       \<lparr>written = ''set'', separator = '' ''\<rparr>"
    "save_token False ?e \<lparr>type = NUMBER, data = 3\<rparr> \<lparr>written = ''set'', separator = '' ''\<rparr> =
       \<lparr>written = ''set 3.000000'', separator = '',''\<rparr>"
    "save_token False ?e \<lparr>type = LINEBREAK, data = 0\<rparr>
        \<lparr>written = ''set 3.000000'', separator = '',''\<rparr> =
       \<lparr>written = ''set 3.000000'' @ [LF], separator = []\<rparr>"
    using
      save_keyword_number_line [of ?e 0 0 False "\<lparr>type = KEYWORD, data = 0\<rparr>"
        "\<lparr>written = [], separator = '',''\<rparr>"]
      save_keyword_number_line [of ?e 0 0 False "\<lparr>type = NUMBER, data = 3\<rparr>"
        "\<lparr>written = ''set'', separator = '' ''\<rparr>"]
      save_keyword_number_line [of ?e 0 0 False "\<lparr>type = LINEBREAK, data = 0\<rparr>"
        "\<lparr>written = ''set 3.000000'', separator = '',''\<rparr>"]
    by (simp_all add: EOL_STR_def pool_str_def c_str_def)
  from whole steps show ?thesis by blast
qed

subsection \<open>Counting the tokens of a line\<close>

lemma count_loop_takeWhile:
  "count_loop r k =
     k + length (takeWhile (\<lambda>t. type t \<noteq> LINEBREAK)
                  (drop (token_pos r + k) (tokens (reader_doc r))))"
proof (induction r k rule: count_loop.induct)
  case (1 r count)
  let ?ts = "tokens (reader_doc r)" and ?i = "token_pos r + count"
  show ?case
  proof (cases "EndOfFile r count")
    case True
    then show ?thesis
      by (subst count_loop.simps) (simp add: EndOfFile_def)
  next
    case inside: False
    then have split: "drop ?i ?ts = ?ts ! ?i # drop (Suc ?i) ?ts"
      by (simp add: Cons_nth_drop_Suc EndOfFile_def)
    show ?thesis
    proof (cases "type (?ts ! ?i) = LINEBREAK")
      case True
      with inside split show ?thesis
        by (subst count_loop.simps) (simp add: GetTokType_def)
    next
      case False
      with inside have go: "\<not> EndOfFile r count \<and> GetTokType r count \<noteq> Some LINEBREAK"
        by (simp add: GetTokType_def)
      with 1 False split show ?thesis
        by (subst count_loop.simps) simp
    qed
  qed
qed

text \<open>
  C9. For every document and every cursor, \<^verbatim>\<open>CountLineArgs\<close> returns the number of tokens
  from the cursor up to, and not including, the next LINEBREAK or the end of the token list;
  the reader it leaves is the reader it was given; and it returns 0 when the token at the
  cursor is a LINEBREAK.
\<close>

theorem count_line_args:
  "CountLineArgs r =
     (int (length (takeWhile (\<lambda>t. type t \<noteq> LINEBREAK)
                     (drop (token_pos r) (tokens (reader_doc r))))), r)
   \<and> (GetTokType r 0 = Some LINEBREAK \<longrightarrow> fst (CountLineArgs r) = 0)"
proof -
  have "GetTokType r 0 = Some LINEBREAK \<Longrightarrow>
        takeWhile (\<lambda>t. type t \<noteq> LINEBREAK) (drop (token_pos r) (tokens (reader_doc r))) = []"
    by (auto simp: GetTokType_def EndOfFile_def Cons_nth_drop_Suc [symmetric] split: if_splits)
  then show ?thesis
    by (simp add: CountLineArgs_def count_loop_takeWhile)
qed

theorem count_line_args_witness:
  "CountLineArgs
     \<lparr>reader_doc =
        \<lparr>tokens = [\<lparr>type = KEYWORD, data = 0\<rparr>, \<lparr>type = NUMBER, data = 1\<rparr>,
                   \<lparr>type = NUMBER, data = 2\<rparr>, \<lparr>type = LINEBREAK, data = 0\<rparr>],
         string_pool = ''set'' @ [NUL]\<rparr>,
      token_pos = 1\<rparr> =
     (2, \<lparr>reader_doc =
            \<lparr>tokens = [\<lparr>type = KEYWORD, data = 0\<rparr>, \<lparr>type = NUMBER, data = 1\<rparr>,
                       \<lparr>type = NUMBER, data = 2\<rparr>, \<lparr>type = LINEBREAK, data = 0\<rparr>],
             string_pool = ''set'' @ [NUL]\<rparr>,
          token_pos = 1\<rparr>)
   \<and> GetTokType
       \<lparr>reader_doc =
          \<lparr>tokens = [\<lparr>type = KEYWORD, data = 0\<rparr>, \<lparr>type = LINEBREAK, data = 0\<rparr>],
           string_pool = ''end'' @ [NUL]\<rparr>,
        token_pos = 1\<rparr> 0 = Some LINEBREAK
   \<and> fst (CountLineArgs
       \<lparr>reader_doc =
          \<lparr>tokens = [\<lparr>type = KEYWORD, data = 0\<rparr>, \<lparr>type = LINEBREAK, data = 0\<rparr>],
           string_pool = ''end'' @ [NUL]\<rparr>,
        token_pos = 1\<rparr>) = 0"
proof -
  have at_break: "GetTokType
       \<lparr>reader_doc =
          \<lparr>tokens = [\<lparr>type = KEYWORD, data = 0\<rparr>, \<lparr>type = LINEBREAK, data = 0\<rparr>],
           string_pool = ''end'' @ [NUL]\<rparr>,
        token_pos = 1\<rparr> 0 = Some LINEBREAK"
    by (simp add: GetTokType_def EndOfFile_def)
  show ?thesis
    using at_break
      count_line_args [of "\<lparr>reader_doc =
        \<lparr>tokens = [\<lparr>type = KEYWORD, data = 0\<rparr>, \<lparr>type = NUMBER, data = 1\<rparr>,
                   \<lparr>type = NUMBER, data = 2\<rparr>, \<lparr>type = LINEBREAK, data = 0\<rparr>],
         string_pool = ''set'' @ [NUL]\<rparr>,
      token_pos = 1\<rparr>"]
      count_line_args [of "\<lparr>reader_doc =
          \<lparr>tokens = [\<lparr>type = KEYWORD, data = 0\<rparr>, \<lparr>type = LINEBREAK, data = 0\<rparr>],
           string_pool = ''end'' @ [NUL]\<rparr>,
        token_pos = 1\<rparr>"]
    by simp
qed

subsection \<open>Naked strings\<close>

lemma naked_separator:
  "partial_tok_type q = P_STRING_NAKED \<Longrightarrow> is_separator c \<Longrightarrow>
   process_char c q =
     q\<lparr>doc := \<lparr>tokens = tokens (doc q) @
                   [\<lparr>type = STRING, data = float_of_size (length (string_pool (doc q)))\<rparr>],
               string_pool = string_pool (doc q) @ tok q @ [NUL]\<rparr>,
       tok := [], partial_tok_type := P_NONE, line_pos := line_pos q + 1\<rparr>"
  by (auto simp add: process_char_def UpdateString_def is_separator_def block_defs Let_def)

lemma naked_newline:
  "partial_tok_type q = P_STRING_NAKED \<Longrightarrow>
   process_char LF q =
     q\<lparr>doc := \<lparr>tokens = tokens (doc q) @
                   [\<lparr>type = STRING, data = float_of_size (length (string_pool (doc q)))\<rparr>,
                    \<lparr>type = LINEBREAK, data = 0\<rparr>],
               string_pool = string_pool (doc q) @ tok q @ [NUL]\<rparr>,
       tok := [], partial_tok_type := P_NONE, line_num := line_num q + 1, line_pos := 0\<rparr>"
  by (simp add: process_char_def UpdateString_def block_defs Let_def)

lemma naked_slash:
  "partial_tok_type q = P_STRING_NAKED \<Longrightarrow>
   process_char CHR ''/'' q = q\<lparr>tok := tok q @ ''/'', line_pos := line_pos q + 1\<rparr>"
  by (simp add: process_char_def UpdateString_def block_defs Let_def)

lemma foo_bar_baz_run:
  assumes "has_option p OPTION_ALLOW_NAKED_STRINGS"
    and "partial_tok_type p = P_NONE" and "tok p = []"
    and "tokens (doc p) \<noteq> []" and "type (last (tokens (doc p))) \<noteq> LINEBREAK"
  shows "parse_text ''foo bar/baz'' p =
     p\<lparr>doc := \<lparr>tokens = tokens (doc p) @
                   [\<lparr>type = STRING, data = float_of_size (length (string_pool (doc p)))\<rparr>],
               string_pool = string_pool (doc p) @ ''foo'' @ [NUL]\<rparr>,
       tok := ''bar/baz'', partial_tok_type := P_STRING_NAKED, line_pos := line_pos p + 10\<rparr>"
  using assms
  by (simp add: handler_defs block_defs has_option_def isdigit_def isalpha_def Let_def)

text \<open>
  What the code does with the text when a separator or a newline follows it, from any state
  between tokens that is not at the start of a line: both strings are flushed. A space, comma
  or tab inside a naked string flushes it as a STRING token, and a slash inside a naked
  string is appended to the buffer like any other character.
\<close>

lemma add_4_Suc: "n + 4 = Suc (Suc (Suc (Suc n)))"
  by simp

lemma foo_bar_baz_terminated:
  assumes "has_option p OPTION_ALLOW_NAKED_STRINGS"
    and "partial_tok_type p = P_NONE" and "tok p = []"
    and "tokens (doc p) \<noteq> []" and "type (last (tokens (doc p))) \<noteq> LINEBREAK"
    and "is_separator t \<or> t = LF"
  shows "tokens (doc (parse_text (''foo bar/baz'' @ [t]) p)) =
           tokens (doc p) @
             [\<lparr>type = STRING, data = float_of_size (length (string_pool (doc p)))\<rparr>,
              \<lparr>type = STRING, data = float_of_size (length (string_pool (doc p)) + 4)\<rparr>] @
             (if t = LF then [\<lparr>type = LINEBREAK, data = 0\<rparr>] else [])
       \<and> string_pool (doc (parse_text (''foo bar/baz'' @ [t]) p)) =
           string_pool (doc p) @ ''foo'' @ [NUL] @ ''bar/baz'' @ [NUL]
       \<and> (partial_tok_type q = P_STRING_NAKED \<and> is_separator c \<longrightarrow>
            tokens (doc (process_char c q)) =
              tokens (doc q) @ [\<lparr>type = STRING, data = float_of_size (length (string_pool (doc q)))\<rparr>]
          \<and> string_pool (doc (process_char c q)) = string_pool (doc q) @ tok q @ [NUL]
          \<and> partial_tok_type (process_char c q) = P_NONE)
       \<and> (partial_tok_type q = P_STRING_NAKED \<longrightarrow>
            process_char CHR ''/'' q = q\<lparr>tok := tok q @ ''/'', line_pos := line_pos q + 1\<rparr>)"
proof -
  define r where "r = parse_text ''foo bar/baz'' p"
  have r: "r = p\<lparr>doc := \<lparr>tokens = tokens (doc p) @
                   [\<lparr>type = STRING, data = float_of_size (length (string_pool (doc p)))\<rparr>],
               string_pool = string_pool (doc p) @ ''foo'' @ [NUL]\<rparr>,
       tok := ''bar/baz'', partial_tok_type := P_STRING_NAKED, line_pos := line_pos p + 10\<rparr>"
    unfolding r_def using assms(1-5) by (rule foo_bar_baz_run)
  then have naked: "partial_tok_type r = P_STRING_NAKED" by simp
  have whole: "parse_text (''foo bar/baz'' @ [t]) p = process_char t r"
    unfolding r_def using parse_text_append [of "''foo bar/baz''" "[t]" p] by simp
  have "tokens (doc (process_char t r)) =
           tokens (doc p) @
             [\<lparr>type = STRING, data = float_of_size (length (string_pool (doc p)))\<rparr>,
              \<lparr>type = STRING, data = float_of_size (length (string_pool (doc p)) + 4)\<rparr>] @
             (if t = LF then [\<lparr>type = LINEBREAK, data = 0\<rparr>] else [])
       \<and> string_pool (doc (process_char t r)) =
           string_pool (doc p) @ ''foo'' @ [NUL] @ ''bar/baz'' @ [NUL]"
  proof (cases "t = LF")
    case True
    have "process_char t r = r\<lparr>doc := \<lparr>tokens = tokens (doc r) @
                   [\<lparr>type = STRING, data = float_of_size (length (string_pool (doc r)))\<rparr>,
                    \<lparr>type = LINEBREAK, data = 0\<rparr>],
               string_pool = string_pool (doc r) @ tok r @ [NUL]\<rparr>,
       tok := [], partial_tok_type := P_NONE, line_num := line_num r + 1, line_pos := 0\<rparr>"
      unfolding True using naked by (rule naked_newline)
    with True show ?thesis by (simp add: r add_4_Suc)
  next
    case False
    with assms(6) have "is_separator t" by simp
    from naked_separator [OF naked this] False show ?thesis by (simp add: r add_4_Suc)
  qed
  then show ?thesis
    unfolding whole using naked_separator [of q c] naked_slash [of q] by simp
qed

text \<open>
  C7. The spec expects \<^verbatim>\<open>foo bar/baz\<close>, tokenized with naked strings allowed at a position
  that is not the first of a line, to give STRING("foo") and STRING("bar/baz"). The handlers
  split the text as the spec says, but with nothing after \<^verbatim>\<open>baz\<close> the second string is
  never flushed: the bytes \<^verbatim>\<open>set foo bar/baz\<close> load as KEYWORD("set"), STRING("foo"),
  LINEBREAK, with \<^verbatim>\<open>bar/baz\<close> left in the parser's buffer as a naked string. The same bytes
  followed by a newline load with both strings.
\<close>

theorem load_foo_bar_baz_without_terminator:
  "LoadFromDataStream ''set foo bar/baz'' OPTION_ALLOW_NAKED_STRINGS =
     \<lparr>tokens = [\<lparr>type = KEYWORD, data = 0\<rparr>, \<lparr>type = STRING, data = 4\<rparr>,
                \<lparr>type = LINEBREAK, data = 0\<rparr>],
      string_pool = ''set'' @ [NUL] @ ''foo'' @ [NUL]\<rparr>
   \<and> tok (parse_text ''set foo bar/baz'' (new_parser OPTION_ALLOW_NAKED_STRINGS)) = ''bar/baz''
   \<and> partial_tok_type (parse_text ''set foo bar/baz'' (new_parser OPTION_ALLOW_NAKED_STRINGS)) =
       P_STRING_NAKED
   \<and> LoadFromDataStream (''set foo bar/baz'' @ [LF]) OPTION_ALLOW_NAKED_STRINGS =
     \<lparr>tokens = [\<lparr>type = KEYWORD, data = 0\<rparr>, \<lparr>type = STRING, data = 4\<rparr>,
                \<lparr>type = STRING, data = 8\<rparr>, \<lparr>type = LINEBREAK, data = 0\<rparr>],
      string_pool = ''set'' @ [NUL] @ ''foo'' @ [NUL] @ ''bar/baz'' @ [NUL]\<rparr>"
  by (simp add: eval_defs float_of_size_small)

subsection \<open>The title line\<close>


















subsection \<open>Comments and line breaks\<close>

lemma comments_closed_snoc:
  "comments_closed ts \<Longrightarrow> type t \<noteq> COMMENT \<Longrightarrow> comments_closed (ts @ [t])"
  by (induction ts rule: comments_closed.induct) (auto split: if_splits)

lemma comments_closed_snoc2:
  "comments_closed ts \<Longrightarrow> type b = LINEBREAK \<Longrightarrow> comments_closed (ts @ [a, b])"
  by (induction ts rule: comments_closed.induct) (auto split: if_splits)

lemma comments_closed_nth:
  "comments_closed ts \<Longrightarrow> i < length ts \<Longrightarrow> type (ts ! i) = COMMENT \<Longrightarrow>
   Suc i < length ts \<and> type (ts ! Suc i) = LINEBREAK"
proof (induction ts arbitrary: i rule: comments_closed.induct)
  case 1
  then show ?case by simp
next
  case (2 t)
  then show ?case by simp
next
  case (3 t u ts)
  show ?case
  proof (cases i)
    case 0
    with 3 show ?thesis by (simp split: if_splits)
  next
    case (Suc j)
    with 3 show ?thesis by simp
  qed
qed

lemma comments_closed_handlers:
  assumes "comments_closed (tokens (doc p))"
  shows "comments_closed (tokens (doc (BeginToken c p)))"
    and "comments_closed (tokens (doc (UpdateComment c p)))"
    and "comments_closed (tokens (doc (UpdateString c p)))"
    and "comments_closed (tokens (doc (UpdateNumber c p)))"
    and "comments_closed (tokens (doc (UpdateBool c p)))"
    and "comments_closed (tokens (doc (UpdateKeyword c p)))"
    and "comments_closed (tokens (doc (UpdateTitle c p)))"
    and "comments_closed (tokens (doc (UpdateGarbage c p)))"
  using assms
  by (simp_all add: BeginToken_def begin_switch_def UpdateComment_def UpdateString_def
        UpdateNumber_def UpdateBool_def UpdateKeyword_def UpdateTitle_def UpdateGarbage_def
        block_doc block_tokens comments_closed_snoc comments_closed_snoc2 Let_def)

lemma comments_closed_process_char:
  "comments_closed (tokens (doc p)) \<Longrightarrow> comments_closed (tokens (doc (process_char c p)))"
  by (simp add: process_char_def comments_closed_handlers split: PartialToken.split)

lemma comments_closed_parse_text:
  "comments_closed (tokens (doc p)) \<Longrightarrow> comments_closed (tokens (doc (parse_text cs p)))"
  by (induction cs arbitrary: p) (simp_all add: comments_closed_process_char)

lemma comments_closed_load: "comments_closed (tokens (LoadFromDataStream cs opt))"
proof -
  have "comments_closed (tokens (doc (parse_text cs (new_parser opt))))"
    by (rule comments_closed_parse_text) (simp add: new_parser_def)
  then show ?thesis
    by (simp add: LoadFromDataStream_def ensure_final_newline_def comments_closed_snoc)
qed

lemma comment_run:
  "partial_tok_type p = P_COMMENT_SEMICOLON \<or> partial_tok_type p = P_COMMENT_SLASH \<Longrightarrow>
   LF \<notin> set w \<Longrightarrow> doc (parse_text w p) = doc p"
proof (induction w arbitrary: p)
  case Nil
  then show ?case by simp
next
  case (Cons c w)
  from Cons.prems have "LF \<noteq> c" by auto
  with Cons.prems(1)
  have step: "doc (process_char c p) = doc p \<and>
              partial_tok_type (process_char c p) = partial_tok_type p"
    by (auto simp add: process_char_def UpdateComment_def inc_line_pos_def tok_push_back_def)
  with Cons show ?case by simp
qed

lemma begin_switch_comment:
  "begin_switch CHR '';'' p = inc_line_pos (p\<lparr>partial_tok_type := P_COMMENT_SEMICOLON\<rparr>)"
  "has_option p OPTION_ALLOW_SLASH_COMMENTS \<Longrightarrow>
   begin_switch CHR ''/'' p = inc_line_pos (p\<lparr>partial_tok_type := P_COMMENT_SLASH\<rparr>)"
  by (simp_all add: begin_switch_def)

lemma title_override_comment:
  "partial_tok_type p = P_COMMENT_SEMICOLON \<or> partial_tok_type p = P_COMMENT_SLASH \<Longrightarrow>
   title_override p = p"
  by (auto simp add: title_override_def)

lemma comment_begin:
  assumes "partial_tok_type p = P_NONE"
    and "c = CHR '';'' \<or> c = CHR ''/'' \<and> has_option p OPTION_ALLOW_SLASH_COMMENTS"
  shows "doc (process_char c p) = doc p \<and>
   (partial_tok_type (process_char c p) = P_COMMENT_SEMICOLON \<or>
    partial_tok_type (process_char c p) = P_COMMENT_SLASH)"
proof -
  from assms(2)
  have sw: "begin_switch c p = inc_line_pos (p\<lparr>partial_tok_type := P_COMMENT_SEMICOLON\<rparr>) \<or>
            begin_switch c p = inc_line_pos (p\<lparr>partial_tok_type := P_COMMENT_SLASH\<rparr>)"
    by (auto simp add: begin_switch_comment)
  then have kind: "partial_tok_type (begin_switch c p) = P_COMMENT_SEMICOLON \<or>
                   partial_tok_type (begin_switch c p) = P_COMMENT_SLASH"
    and same: "doc (begin_switch c p) = doc p"
    by (auto simp add: inc_line_pos_def)
  from kind have "title_override (begin_switch c p) = begin_switch c p"
    by (rule title_override_comment)
  with kind same assms(1) show ?thesis
    by (auto simp add: process_char_def BeginToken_def warn_if_garbage_def)
qed

text \<open>
  C10. In the token list of every loaded document, each COMMENT token is directly followed
  by a LINEBREAK token. And a comment that is still open when the input ends leaves no
  trace: if the tokenizer is between tokens after the input \<open>cs\<close>, then the input \<open>cs\<close>
  followed by a comment start (a semicolon, or a slash when slash comments are allowed) and
  any text without a newline loads as the same document as \<open>cs\<close> alone.
\<close>

theorem comments_end_with_linebreak:
  "(\<forall>i < length (tokens (LoadFromDataStream cs opt)).
       type (tokens (LoadFromDataStream cs opt) ! i) = COMMENT \<longrightarrow>
       Suc i < length (tokens (LoadFromDataStream cs opt)) \<and>
       type (tokens (LoadFromDataStream cs opt) ! Suc i) = LINEBREAK)
   \<and> (partial_tok_type (parse_text cs (new_parser opt)) = P_NONE
      \<and> (c = CHR '';'' \<or>
         c = CHR ''/'' \<and> has_option (parse_text cs (new_parser opt)) OPTION_ALLOW_SLASH_COMMENTS)
      \<and> LF \<notin> set w
      \<longrightarrow> LoadFromDataStream (cs @ c # w) opt = LoadFromDataStream cs opt)"
proof (intro conjI allI impI)
  fix i
  assume "i < length (tokens (LoadFromDataStream cs opt))"
    and "type (tokens (LoadFromDataStream cs opt) ! i) = COMMENT"
  with comments_closed_load [of cs opt]
  have "Suc i < length (tokens (LoadFromDataStream cs opt)) \<and>
        type (tokens (LoadFromDataStream cs opt) ! Suc i) = LINEBREAK"
    by (rule comments_closed_nth)
  then show "Suc i < length (tokens (LoadFromDataStream cs opt))"
    and "type (tokens (LoadFromDataStream cs opt) ! Suc i) = LINEBREAK"
    by simp_all
next
  let ?p = "parse_text cs (new_parser opt)"
  assume a: "partial_tok_type ?p = P_NONE
      \<and> (c = CHR '';'' \<or> c = CHR ''/'' \<and> has_option ?p OPTION_ALLOW_SLASH_COMMENTS)
      \<and> LF \<notin> set w"
  then have opened: "doc (process_char c ?p) = doc ?p"
    "partial_tok_type (process_char c ?p) = P_COMMENT_SEMICOLON \<or>
     partial_tok_type (process_char c ?p) = P_COMMENT_SLASH"
    using comment_begin [of ?p c] by blast+
  from a opened(2) have "doc (parse_text w (process_char c ?p)) = doc (process_char c ?p)"
    by (intro comment_run) simp_all
  with opened(1) have "doc (parse_text (cs @ c # w) (new_parser opt)) = doc ?p"
    by (simp add: parse_text_append)
  then show "LoadFromDataStream (cs @ c # w) opt = LoadFromDataStream cs opt"
    by (simp add: LoadFromDataStream_def)
qed

theorem comments_end_with_linebreak_witness:
  "type (tokens (LoadFromDataStream (''; note'' @ [LF]) 0) ! 0) = COMMENT
   \<and> Suc 0 < length (tokens (LoadFromDataStream (''; note'' @ [LF]) 0))
   \<and> type (tokens (LoadFromDataStream (''; note'' @ [LF]) 0) ! Suc 0) = LINEBREAK
   \<and> partial_tok_type (parse_text (''set 1'' @ [LF]) (new_parser 0)) = P_NONE
   \<and> LoadFromDataStream ((''set 1'' @ [LF]) @ CHR '';'' # '' tail'') 0 =
       LoadFromDataStream (''set 1'' @ [LF]) 0"
proof -
  let ?ts = "tokens (LoadFromDataStream (''; note'' @ [LF]) 0)"
  have ts: "?ts = [\<lparr>type = COMMENT, data = 0\<rparr>, \<lparr>type = LINEBREAK, data = 0\<rparr>]"
    by (simp add: eval_defs float_of_size_small)
  have i: "0 < length ?ts" "type (?ts ! 0) = COMMENT"
    unfolding ts by simp_all
  have between: "partial_tok_type (parse_text (''set 1'' @ [LF]) (new_parser 0)) = P_NONE"
    by (simp add: eval_defs float_of_size_small)
  have w: "LF \<notin> set '' tail''" by simp
  note closed = comments_end_with_linebreak
    [of "''; note'' @ [LF]" 0 "CHR '';''" "'' tail''"]
  note dropped = comments_end_with_linebreak [of "''set 1'' @ [LF]" 0 "CHR '';''" "'' tail''"]
  from closed i have "Suc 0 < length ?ts \<and> type (?ts ! Suc 0) = LINEBREAK"
    by blast
  moreover from dropped between w
  have "LoadFromDataStream ((''set 1'' @ [LF]) @ CHR '';'' # '' tail'') 0 =
        LoadFromDataStream (''set 1'' @ [LF]) 0"
    by blast
  ultimately show ?thesis using i(2) between by blast
qed

subsection \<open>The title line among the lines of an input\<close>























lemma every_line_has_a_kind:
  "LF \<notin> set l \<Longrightarrow> blank_line l \<or> comment_line opt l \<or> content_line opt l"
proof (cases "dropWhile skippable l")
  case Nil
  then show ?thesis by (simp add: blank_line_def)
next
  case (Cons c rest)
  assume "LF \<notin> set l"
  moreover have "set (dropWhile skippable l) \<subseteq> set l"
    by (auto dest: set_dropWhileD)
  ultimately have "c \<noteq> LF" "LF \<notin> set rest"
    using Cons by auto
  with Cons show ?thesis
    by (auto simp add: comment_line_def content_line_def)
qed







end
